theory Spec2Isabelle
  imports Complex_Main "HOL-Library.Product_Lexorder"
begin

section \<open>JavaScript values read by the route handlers\<close>

text \<open>
  The handlers receive JSON (or form) fields and coerce them with \<open>Number(v)\<close>,
  \<open>parseInt(v, 10)\<close>, \<open>v == null\<close>, \<open>!v\<close> and \<open>Number.isFinite\<close>.
  A JavaScript number is modelled as an exact rational or one of the three non-finite
  values; rounding to IEEE doubles is not modelled. \<open>Number.isFinite(x)\<close> is the case
  \<open>Fin\<close>. A field is \<open>undefined\<close>, \<open>null\<close>, a boolean, a number or a string; arrays and
  objects in place of a scalar are not modelled.
\<close>

datatype jsnum = Fin rat | NaN | PosInf | NegInf

datatype jsval = JUndefined | JNull | JBool bool | JNum jsnum | JStr string

text \<open>\<open>a !== b\<close> on numbers: \<open>NaN\<close> differs from everything, itself included.\<close>

fun strict_neq :: "jsnum \<Rightarrow> jsnum \<Rightarrow> bool" where
  "strict_neq NaN b = True"
| "strict_neq a NaN = True"
| "strict_neq a b = (a \<noteq> b)"

text \<open>\<open>!n\<close> is true for \<open>0\<close> and \<open>NaN\<close>.\<close>

fun num_truthy :: "jsnum \<Rightarrow> bool" where
  "num_truthy (Fin r) = (r \<noteq> 0)"
| "num_truthy NaN = False"
| "num_truthy n = True"

fun truthy :: "jsval \<Rightarrow> bool" where
  "truthy JUndefined = False"
| "truthy JNull = False"
| "truthy (JBool b) = b"
| "truthy (JNum n) = num_truthy n"
| "truthy (JStr s) = (s \<noteq> [])"

text \<open>\<open>v == null\<close> holds for \<open>null\<close> and \<open>undefined\<close> only.\<close>

fun nullish :: "jsval \<Rightarrow> bool" where
  "nullish JUndefined = True"
| "nullish JNull = True"
| "nullish v = False"

subsection \<open>Strings: trimming and numeric literals\<close>

definition is_ws :: "char \<Rightarrow> bool" where
  "is_ws c = (c = CHR '' '' \<or> c = CHR 0x09 \<or> c = CHR 0x0A \<or> c = CHR 0x0B
              \<or> c = CHR 0x0C \<or> c = CHR 0x0D)"

text \<open>\<open>s.trim()\<close>, for the ASCII white space characters.\<close>

definition trim :: "string \<Rightarrow> string" where
  "trim s = rev (dropWhile is_ws (rev (dropWhile is_ws s)))"

definition digit_val :: "nat \<Rightarrow> char \<Rightarrow> nat option" where
  "digit_val radix c =
     (let n = (of_char c :: nat);
          d = (if 48 \<le> n \<and> n \<le> 57 then Some (n - 48)
               else if 97 \<le> n \<and> n \<le> 102 then Some (n - 87)
               else if 65 \<le> n \<and> n \<le> 70 then Some (n - 55)
               else None)
      in case d of None \<Rightarrow> None | Some v \<Rightarrow> if v < radix then Some v else None)"

fun digits_val :: "nat \<Rightarrow> string \<Rightarrow> nat \<Rightarrow> nat option" where
  "digits_val radix [] acc = Some acc"
| "digits_val radix (c # cs) acc =
     (case digit_val radix c of
        None \<Rightarrow> None
      | Some d \<Rightarrow> digits_val radix cs (radix * acc + d))"

text \<open>A non-empty run of digits in the given radix.\<close>

definition number_in :: "nat \<Rightarrow> string \<Rightarrow> nat option" where
  "number_in radix s = (if s = [] then None else digits_val radix s 0)"

text \<open>\<open>digits [. digits]\<close> or \<open>. digits\<close>, without sign or exponent.\<close>

definition mantissa :: "string \<Rightarrow> rat option" where
  "mantissa s =
     (let ip = takeWhile (\<lambda>c. c \<noteq> CHR ''.'') s;
          fp = (case dropWhile (\<lambda>c. c \<noteq> CHR ''.'') s of [] \<Rightarrow> [] | d # t \<Rightarrow> t)
      in if ip = [] \<and> fp = [] then None
         else (case (digits_val 10 ip 0, digits_val 10 fp 0) of
                 (Some i, Some f) \<Rightarrow> Some (of_nat i + of_nat f / 10 ^ length fp)
               | _ \<Rightarrow> None))"

definition is_e :: "char \<Rightarrow> bool" where
  "is_e c = (c = CHR ''e'' \<or> c = CHR ''E'')"

text \<open>The exponent part after \<open>e\<close>: an optional sign and a non-empty run of digits.\<close>

definition exponent :: "string \<Rightarrow> int option" where
  "exponent s =
     (case s of
        [] \<Rightarrow> None
      | c # t \<Rightarrow>
          if c = CHR ''-'' then map_option (\<lambda>n. - int n) (number_in 10 t)
          else if c = CHR ''+'' then map_option int (number_in 10 t)
          else map_option int (number_in 10 s))"

definition scale10 :: "rat \<Rightarrow> int \<Rightarrow> rat" where
  "scale10 m e = (if 0 \<le> e then m * 10 ^ nat e else m / 10 ^ nat (- e))"

text \<open>An unsigned decimal literal: \<open>Infinity\<close>, or a mantissa with an optional exponent.\<close>

definition unsigned_decimal :: "string \<Rightarrow> jsnum" where
  "unsigned_decimal s =
     (if s = ''Infinity'' then PosInf
      else
        let m = takeWhile (\<lambda>c. \<not> is_e c) s;
            r = dropWhile (\<lambda>c. \<not> is_e c) s
        in case mantissa m of
             None \<Rightarrow> NaN
           | Some v \<Rightarrow>
               (case r of
                  [] \<Rightarrow> Fin v
                | c # t \<Rightarrow> (case exponent t of None \<Rightarrow> NaN | Some e \<Rightarrow> Fin (scale10 v e))))"

fun negate :: "jsnum \<Rightarrow> jsnum" where
  "negate (Fin r) = Fin (- r)"
| "negate PosInf = NegInf"
| "negate NegInf = PosInf"
| "negate NaN = NaN"

definition radix_literal :: "nat \<Rightarrow> string \<Rightarrow> jsnum" where
  "radix_literal radix s = (case number_in radix s of None \<Rightarrow> NaN | Some n \<Rightarrow> Fin (of_nat n))"

text \<open>
  \<open>Number(s)\<close> for a string: white space is trimmed, the empty string is \<open>0\<close>, then a
  \<open>0x\<close>, \<open>0o\<close> or \<open>0b\<close> integer literal or a signed decimal literal; anything else is
  \<open>NaN\<close>.
\<close>

definition string_to_number :: "string \<Rightarrow> jsnum" where
  "string_to_number s0 =
     (let s = trim s0 in
      case s of
        [] \<Rightarrow> Fin 0
      | c # t \<Rightarrow>
          if c = CHR ''0'' \<and> t \<noteq> [] \<and> (hd t = CHR ''x'' \<or> hd t = CHR ''X'') then radix_literal 16 (tl t)
          else if c = CHR ''0'' \<and> t \<noteq> [] \<and> (hd t = CHR ''o'' \<or> hd t = CHR ''O'') then radix_literal 8 (tl t)
          else if c = CHR ''0'' \<and> t \<noteq> [] \<and> (hd t = CHR ''b'' \<or> hd t = CHR ''B'') then radix_literal 2 (tl t)
          else if c = CHR ''-'' then negate (unsigned_decimal t)
          else if c = CHR ''+'' then unsigned_decimal t
          else unsigned_decimal s)"

text \<open>\<open>Number(v)\<close>.\<close>

fun Number :: "jsval \<Rightarrow> jsnum" where
  "Number JUndefined = NaN"
| "Number JNull = Fin 0"
| "Number (JBool b) = Fin (if b then 1 else 0)"
| "Number (JNum n) = n"
| "Number (JStr s) = string_to_number s"

text \<open>
  \<open>parseInt(s, 10)\<close> for a string: leading white space, an optional sign, then the
  longest run of decimal digits; \<open>NaN\<close> when there is none.
\<close>

definition parseInt_string :: "string \<Rightarrow> jsnum" where
  "parseInt_string s0 =
     (let s = dropWhile is_ws s0;
          neg = (s \<noteq> [] \<and> hd s = CHR ''-'');
          body = (if s \<noteq> [] \<and> (hd s = CHR ''-'' \<or> hd s = CHR ''+'') then tl s else s);
          ds = takeWhile (\<lambda>c. digit_val 10 c \<noteq> None) body
      in case number_in 10 ds of
           None \<Rightarrow> NaN
         | Some n \<Rightarrow> Fin (if neg then - of_nat n else of_nat n))"

text \<open>
  \<open>parseInt(v, 10)\<close> goes through \<open>String(v)\<close>. For a finite number printed in plain
  decimal notation that is truncation towards zero; numbers that JavaScript prints in
  exponent notation (magnitude at least \<open>1e21\<close>, or below \<open>1e-6\<close> and not zero) are
  outside what this function models. \<open>String\<close> of \<open>undefined\<close>, \<open>null\<close>, a boolean,
  \<open>NaN\<close> or an infinity has no leading digit.
\<close>

fun parseInt :: "jsval \<Rightarrow> jsnum" where
  "parseInt (JStr s) = parseInt_string s"
| "parseInt (JNum (Fin r)) = Fin (of_int (if 0 \<le> r then \<lfloor>r\<rfloor> else \<lceil>r\<rceil>))"
| "parseInt v = NaN"

section \<open>The database\<close>

text \<open>
  The SQLite schema of \<open>src/config/db.js\<close>, one record per table and one list per
  table's rows. Columns that no modelled statement reads or writes (names, addresses,
  password hashes, surrogate keys of link tables) are left out. Integer keys are
  \<open>int\<close>; \<open>REAL\<close> columns of \<open>work_entries\<close> hold finite numbers (every write of them is
  guarded by \<open>Number.isFinite\<close>), those of \<open>jobs\<close> and \<open>job_wages\<close> hold whatever
  number the job routes wrote. A calendar date (\<open>work_date\<close>, \<open>date('now')\<close>) is the
  number of its day: SQLite compares ISO dates as text, which orders them as days.
\<close>

record user =
  u_id :: int
  u_company_id :: "int option"
  u_is_active :: int
  u_is_admin :: int
  u_role_id :: "int option"

record role =
  r_id :: int
  r_company_id :: "int option"
  r_code :: string
  r_work_entries_days_limit :: "int option"

record permission =
  p_id :: int
  p_code :: string
  p_is_active :: int

record role_permission =
  rp_role_id :: int
  rp_permission_id :: int

datatype effect = ALLOW | DENY

record user_permission =
  up_user_id :: int
  up_permission_id :: int
  up_effect :: effect

record user_setting =
  us_user_id :: int
  us_work_entries_days_limit_override :: "int option"

record job =
  j_id :: int
  j_company_id :: int
  j_job_code :: string
  j_job_type :: string
  j_normal_price :: jsnum
  j_is_active :: jsnum

record job_wage =
  jw_company_id :: int
  jw_job_id :: int
  jw_tier_id :: int
  jw_wage_rate :: jsnum

record wage_tier =
  wt_id :: int
  wt_company_id :: int
  wt_tier_name :: string

record worker =
  wk_id :: int
  wk_company_id :: int
  wk_worker_code :: string
  wk_worker_name :: "string option"

record work_entry =
  we_id :: int
  we_company_id :: int
  we_worker_id :: int
  we_job_id :: int
  we_work_date :: int
  we_job_no1 :: string
  we_job_no2 :: "string option"
  we_amount :: rat
  we_rate :: rat
  we_pay :: rat
  we_customer_rate :: rat
  we_customer_total :: rat
  we_fees_collected :: "rat option"
  we_wage_tier_id :: "int option"
  we_wage_rate :: rat
  we_wage_total :: rat
  we_is_bank :: int
  we_note :: "string option"

record db =
  companies :: "int list"
  users :: "user list"
  roles :: "role list"
  permissions :: "permission list"
  role_permissions :: "role_permission list"
  user_permissions :: "user_permission list"
  user_settings :: "user_setting list"
  jobs :: "job list"
  job_wages :: "job_wage list"
  wage_tiers :: "wage_tier list"
  workers :: "worker list"
  work_entries :: "work_entry list"
  work_entries_seq :: int

text \<open>
  A bound parameter compared with an \<open>INTEGER\<close> column: equal when the number is that
  integer (\<open>NaN\<close> is bound as \<open>NULL\<close> and equals nothing).
\<close>

fun sql_eq :: "jsnum \<Rightarrow> int \<Rightarrow> bool" where
  "sql_eq (Fin r) k = (r = of_int k)"
| "sql_eq n k = False"

section \<open>Requests, sessions and responses\<close>

text \<open>
  The session user is the object the login route stores: the user's id, company and
  admin flag as read from \<open>users\<close> at login, and the permission codes of the role.
\<close>

record session_user =
  su_id :: int
  su_company_id :: "int option"
  su_is_admin :: int
  su_permissions :: "string list"

record session =
  sess_user :: "session_user option"
  activeCompanyId :: "int option"

text \<open>
  The body of a work-entry request. Numeric fields are arbitrary JSON scalars; text
  fields are a string or absent; \<open>work_date\<close> is an ISO date or absent.
\<close>

record body =
  b_company_id :: jsval
  b_worker_id :: jsval
  b_job_code :: "string option"
  b_amount :: jsval
  b_is_bank :: jsval
  b_customer_rate :: jsval
  b_customer_total :: jsval
  b_wage_tier_id :: jsval
  b_wage_rate :: jsval
  b_wage_total :: jsval
  b_rate :: jsval
  b_pay :: jsval
  b_job_no1 :: "string option"
  b_job_no2 :: "string option"
  b_work_date :: "int option"
  b_fees_collected :: jsval
  b_note :: "string option"

record request =
  query_companyId :: "string option"
  params_id :: string
  req_body :: body
  req_session :: session

text \<open>
  The error responses of the handlers, named after the specification's taxonomy:
  \<^item> \<open>Unauthenticated\<close>: 401 "Unauthorized";
  \<^item> \<open>Forbidden code\<close>: 403 "Forbidden" with \<open>missingPermission = code\<close>;
  \<^item> \<open>InvalidRequest\<close>: 400 "Invalid id/company.", "worker_id is required.",
    "Missing required fields.", "customer_rate/customer_total/wage_rate/wage_total are
    required.";
  \<^item> \<open>InvalidAmount\<close>: 400 "Invalid amount (hours).";
  \<^item> \<open>InvalidNumber\<close>: 400 "Invalid numeric value in amount/rates/totals.";
  \<^item> \<open>OutOfEditWindow\<close>: 403 "You cannot edit/delete this record (out of allowed date
    range).";
  \<^item> \<open>InvalidJobReference\<close>: 400 "Invalid job_code";
  \<^item> \<open>RateEditForbidden\<close>: 403 "No permission to edit rates.";
  \<^item> \<open>InvalidFees\<close>: 400 "fees_collected cannot be negative.";
  \<^item> \<open>RateResolutionFailed\<close>: 400 "Failed to resolve rates for selected job/tier.",
    "Invalid customer rate for this job.", "Invalid wage rate for this wage tier.";
  \<^item> \<open>InvalidRate\<close>: 400 "Invalid customer_rate.", "Invalid wage_rate.";
  \<^item> \<open>DuplicateJobReference\<close>: 400 "Job No1 already exists for this company.";
  \<^item> \<open>NotFound\<close>: 404;
  \<^item> \<open>DatabaseError\<close>: 500, here a constraint of the schema other than the
    uniqueness of \<open>(company_id, job_no1)\<close>.
\<close>

datatype error =
    Unauthenticated
  | Forbidden string
  | InvalidRequest
  | InvalidAmount
  | InvalidNumber
  | OutOfEditWindow
  | InvalidJobReference
  | RateEditForbidden
  | InvalidFees
  | RateResolutionFailed
  | InvalidRate
  | DuplicateJobReference
  | NotFound
  | DatabaseError

section \<open>Permission checks\<close>

text \<open>
  The query shared by \<open>requirePermission\<close> and both \<open>hasPermission\<close> functions:
  \<open>users JOIN roles JOIN role_permissions JOIN permissions\<close>, for the user's id, the
  permission's code and \<open>is_active = 1\<close>. It returns a row or none.
\<close>

definition role_grant_row :: "db \<Rightarrow> int \<Rightarrow> string \<Rightarrow> bool" where
  "role_grant_row d uid code =
     list_ex (\<lambda>u. u_id u = uid \<and>
       list_ex (\<lambda>r. u_role_id u = Some (r_id r) \<and>
         list_ex (\<lambda>rp. rp_role_id rp = r_id r \<and>
           list_ex (\<lambda>p. p_id p = rp_permission_id rp \<and> p_code p = code \<and> p_is_active p = 1)
             (permissions d))
           (role_permissions d))
         (roles d))
       (users d)"

text \<open>
  \<open>requirePermission(code)\<close> of \<open>src/middleware/permission.js\<close>, for a request under
  \<open>/api/\<close>: \<open>None\<close> is \<open>next()\<close>, \<open>Some e\<close> the error response.
\<close>

definition requirePermission :: "string \<Rightarrow> db \<Rightarrow> request \<Rightarrow> error option" where
  "requirePermission code d req =
     (case sess_user (req_session req) of
        None \<Rightarrow> Some Unauthenticated
      | Some user \<Rightarrow>
          if su_id user = 0 then Some Unauthenticated
          else if su_is_admin user = 1 then None
          else if role_grant_row d (su_id user) code then None
          else Some (Forbidden code))"

text \<open>\<open>hasPermission(userId, code)\<close> of \<open>src/middleware/permission.js\<close>.\<close>

definition hasPermission :: "db \<Rightarrow> int \<Rightarrow> string \<Rightarrow> bool" where
  "hasPermission d userId code = role_grant_row d userId code"

text \<open>\<open>hasPermission(req, code, cb)\<close>, local to the work-entry routes.\<close>

definition hasPermissionReq :: "db \<Rightarrow> request \<Rightarrow> string \<Rightarrow> bool" where
  "hasPermissionReq d req code =
     (case sess_user (req_session req) of
        None \<Rightarrow> False
      | Some user \<Rightarrow>
          if su_id user = 0 then False
          else if su_is_admin user = 1 then True
          else role_grant_row d (su_id user) code)"

text \<open>
  The two calls of the exported \<open>hasPermission\<close>, in the \<open>/dashboard\<close> and \<open>/reports\<close>
  page routes: each tests the admin flag first. Both routes run behind \<open>requireAuth\<close>,
  so a session user is present.
\<close>

definition canSeeRates :: "db \<Rightarrow> session_user \<Rightarrow> bool" where
  "canSeeRates d user =
     (if su_is_admin user = 1 then True
      else hasPermission d (su_id user) ''WORK_ENTRY_EDIT_RATES'')"

definition canFilterPayType :: "db \<Rightarrow> session_user \<Rightarrow> bool" where
  "canFilterPayType d user =
     (if su_is_admin user = 1 then True
      else hasPermission d (su_id user) ''REPORT_FILTER_PAYTYPE'')"

text \<open>\<open>res.locals.can(perm)\<close>, the helper the views use.\<close>

definition can :: "session_user option \<Rightarrow> string \<Rightarrow> bool" where
  "can user perm =
     (case user of
        None \<Rightarrow> False
      | Some u \<Rightarrow> su_is_admin u = 1 \<or> perm \<in> set (su_permissions u))"

section \<open>Company context and edit window\<close>

text \<open>
  The application middleware that runs before every route: a signed-in user who is not
  an administrator is pinned to the own company; an administrator keeps the active
  company of the session, if any.
\<close>

definition companyContext :: "session \<Rightarrow> session" where
  "companyContext s =
     (case sess_user s of
        None \<Rightarrow> s
      | Some user \<Rightarrow>
          if su_id user = 0 then s
          else if su_is_admin user \<noteq> 1 then s\<lparr>activeCompanyId := su_company_id user\<rparr>
          else s\<lparr>activeCompanyId :=
                   (case activeCompanyId s of Some c \<Rightarrow> Some c | None \<Rightarrow> su_company_id user)\<rparr>)"

text \<open>
  Truthiness and value of an optional text or integer field: absent is \<open>undefined\<close>, and
  the empty string and \<open>0\<close> are falsy. The value is read only after the test.
\<close>

definition str_truthy :: "string option \<Rightarrow> bool" where
  "str_truthy v = (case v of None \<Rightarrow> False | Some s \<Rightarrow> s \<noteq> [])"

definition str_of :: "string option \<Rightarrow> string" where
  "str_of v = (case v of None \<Rightarrow> [] | Some s \<Rightarrow> s)"

definition int_truthy :: "int option \<Rightarrow> bool" where
  "int_truthy v = (case v of None \<Rightarrow> False | Some k \<Rightarrow> k \<noteq> 0)"

definition int_of :: "int option \<Rightarrow> int" where
  "int_of v = (case v of None \<Rightarrow> 0 | Some k \<Rightarrow> k)"

text \<open>\<open>getCompanyId(req)\<close> of the work-entry routes.\<close>

definition getCompanyId :: "request \<Rightarrow> jsnum" where
  "getCompanyId req =
     (let sess = req_session req;
          userCompanyId = (case sess_user sess of None \<Rightarrow> None | Some user \<Rightarrow> su_company_id user)
      in if str_truthy (query_companyId req) then parseInt_string (str_of (query_companyId req))
         else if truthy (b_company_id (req_body req)) then parseInt (b_company_id (req_body req))
         else if int_truthy (activeCompanyId sess) then Fin (of_int (int_of (activeCompanyId sess)))
         else if int_truthy userCompanyId then Fin (of_int (int_of userCompanyId))
         else Fin 1)"

text \<open>
  \<open>getDaysLimitForUser(req, cb)\<close>: the row is \<open>users LEFT JOIN user_settings LEFT JOIN
  roles\<close> for the session user's id. The limits are \<open>INTEGER\<close> columns, so
  \<open>Number.isFinite(limit)\<close> fails only for \<open>null\<close>. \<open>None\<close> is \<open>null\<close>: unlimited.
\<close>

definition override_limit :: "db \<Rightarrow> user \<Rightarrow> int option" where
  "override_limit d u =
     (case find (\<lambda>s. us_user_id s = u_id u) (user_settings d) of
        None \<Rightarrow> None
      | Some s \<Rightarrow> us_work_entries_days_limit_override s)"

definition role_limit :: "db \<Rightarrow> user \<Rightarrow> int option" where
  "role_limit d u =
     (case u_role_id u of
        None \<Rightarrow> None
      | Some rid \<Rightarrow>
          (case find (\<lambda>r. r_id r = rid) (roles d) of
             None \<Rightarrow> None
           | Some r \<Rightarrow> r_work_entries_days_limit r))"

definition getDaysLimitForUser :: "db \<Rightarrow> request \<Rightarrow> int option" where
  "getDaysLimitForUser d req =
     (case sess_user (req_session req) of
        None \<Rightarrow> None
      | Some su \<Rightarrow>
          if su_id su = 0 \<or> su_is_admin su = 1 then None
          else
            (case find (\<lambda>u. u_id u = su_id su) (users d) of
               None \<Rightarrow> None
             | Some u \<Rightarrow>
                 (let limit = (case override_limit d u of
                                 Some v \<Rightarrow> Some v
                               | None \<Rightarrow> role_limit d u)
                  in case limit of
                       None \<Rightarrow> None
                     | Some l \<Rightarrow> if l \<le> 0 then None else Some l)))"

section \<open>Work-entry routes\<close>

text \<open>
  The date clause \<open>AND we.work_date >= date('now', '-N days')\<close>, present only when a
  limit applies; \<open>today\<close> is the day of \<open>date('now')\<close>.
\<close>

definition dateClause :: "int \<Rightarrow> int option \<Rightarrow> work_entry \<Rightarrow> bool" where
  "dateClause today daysLimit e =
     (case daysLimit of None \<Rightarrow> True | Some n \<Rightarrow> today - n \<le> we_work_date e)"


subsection \<open>GET /api/work-entries\<close>

text \<open>A row of the listing: the entry's columns and the names joined to it.\<close>

record list_row =
  lr_entry :: work_entry
  lr_worker_code :: "string option"
  lr_worker_name :: "string option"
  lr_job_code :: "string option"
  lr_job_type :: "string option"
  lr_wage_tier_name :: "string option"

definition joined_worker :: "db \<Rightarrow> work_entry \<Rightarrow> worker option" where
  "joined_worker d e =
     find (\<lambda>wk. wk_id wk = we_worker_id e \<and> wk_company_id wk = we_company_id e) (workers d)"

definition joined_job :: "db \<Rightarrow> work_entry \<Rightarrow> job option" where
  "joined_job d e =
     find (\<lambda>j. j_id j = we_job_id e \<and> j_company_id j = we_company_id e) (jobs d)"

definition joined_tier :: "db \<Rightarrow> work_entry \<Rightarrow> wage_tier option" where
  "joined_tier d e =
     find (\<lambda>wt. Some (wt_id wt) = we_wage_tier_id e \<and> wt_company_id wt = we_company_id e)
       (wage_tiers d)"

definition list_row_of :: "db \<Rightarrow> work_entry \<Rightarrow> list_row" where
  "list_row_of d e =
     \<lparr> lr_entry = e,
       lr_worker_code = map_option wk_worker_code (joined_worker d e),
       lr_worker_name = Option.bind (joined_worker d e) wk_worker_name,
       lr_job_code = map_option j_job_code (joined_job d e),
       lr_job_type = map_option j_job_type (joined_job d e),
       lr_wage_tier_name = map_option wt_tier_name (joined_tier d e) \<rparr>"

text \<open>
  The listing: the company's entries, inside the date clause when a limit applies,
  \<open>ORDER BY we.work_date DESC, we.id DESC\<close>.
\<close>

definition getWorkEntries :: "int \<Rightarrow> db \<Rightarrow> request \<Rightarrow> list_row list" where
  "getWorkEntries today d req =
     (let companyId = getCompanyId req;
          daysLimit = getDaysLimitForUser d req;
          rows = filter (\<lambda>e. sql_eq companyId (we_company_id e) \<and> dateClause today daysLimit e)
                   (work_entries d)
      in map (list_row_of d) (rev (sort_key (\<lambda>e. (we_work_date e, we_id e)) rows)))"

text \<open>The request as the router sees it, after the application's session middleware.\<close>

definition withContext :: "request \<Rightarrow> request" where
  "withContext req = req\<lparr>req_session := companyContext (req_session req)\<rparr>"

definition api_getWorkEntries :: "int \<Rightarrow> db \<Rightarrow> request \<Rightarrow> list_row list" where
  "api_getWorkEntries today d req = getWorkEntries today d (withContext req)"

subsection \<open>Constraints of the table work_entries\<close>

text \<open>
  The value stored in an \<open>INTEGER\<close> column with a foreign key: the number must be an
  integer that is a key of the parent table.
\<close>

fun sql_int :: "jsnum \<Rightarrow> int option" where
  "sql_int (Fin r) = (if r = of_int \<lfloor>r\<rfloor> then Some \<lfloor>r\<rfloor> else None)"
| "sql_int n = None"

definition fk_ref :: "jsnum \<Rightarrow> int list \<Rightarrow> int option" where
  "fk_ref v keys =
     (case sql_int v of
        None \<Rightarrow> None
      | Some k \<Rightarrow> if k \<in> set keys then Some k else None)"

text \<open>
  The nullable reference \<open>wage_tier_id\<close>: \<open>null\<close> and \<open>NaN\<close> are stored as \<open>NULL\<close>;
  any other number must be the id of a wage tier. \<open>None\<close> is a violated constraint.
\<close>

definition tier_ref :: "jsnum option \<Rightarrow> db \<Rightarrow> int option option" where
  "tier_ref v d =
     (case v of
        None \<Rightarrow> Some None
      | Some NaN \<Rightarrow> Some None
      | Some x \<Rightarrow> map_option Some (fk_ref x (map wt_id (wage_tiers d))))"

text \<open>\<open>(s || "").trim() || null\<close>.\<close>

definition trim_or_null :: "string option \<Rightarrow> string option" where
  "trim_or_null v = (if trim (str_of v) = [] then None else Some (trim (str_of v)))"

text \<open>\<open>Number(is_bank) === 1 ? 1 : 0\<close>.\<close>

definition is_bank_flag :: "jsval \<Rightarrow> int" where
  "is_bank_flag v = (if Number v = Fin 1 then 1 else 0)"

text \<open>
  The local helper \<open>toNumOrNull\<close> of the update route, called \<open>n\<close> in the create
  route: \<open>null\<close> for the empty string, \<open>null\<close>, \<open>undefined\<close> and every value whose
  number is not finite.
\<close>

definition toNumOrNull :: "jsval \<Rightarrow> rat option" where
  "toNumOrNull v =
     (if v = JStr [] \<or> nullish v then None
      else case Number v of Fin x \<Rightarrow> Some x | _ \<Rightarrow> None)"

text \<open>The next key of the \<open>AUTOINCREMENT\<close> column \<open>work_entries.id\<close>.\<close>

definition next_work_entry_id :: "db \<Rightarrow> int" where
  "next_work_entry_id d = fold max (map we_id (work_entries d)) (work_entries_seq d) + 1"

subsection \<open>POST /api/work-entries\<close>

record created =
  cr_id :: int
  cr_fees_collected :: rat

text \<open>
  The \<open>INSERT\<close> with the table's constraints, in the order SQLite reports them:
  \<open>NOT NULL\<close> of \<open>worker_id\<close>, the uniqueness of \<open>(company_id, job_no1)\<close>, then the
  foreign keys at the end of the statement.
\<close>

definition insertWorkEntry ::
  "db \<Rightarrow> jsnum \<Rightarrow> jsnum \<Rightarrow> int \<Rightarrow> rat \<Rightarrow> int \<Rightarrow> rat \<Rightarrow> rat \<Rightarrow> jsnum option \<Rightarrow> rat \<Rightarrow> rat
     \<Rightarrow> rat \<Rightarrow> rat \<Rightarrow> string \<Rightarrow> string option \<Rightarrow> int \<Rightarrow> string option \<Rightarrow> rat
     \<Rightarrow> (error + created) \<times> db" where
  "insertWorkEntry d companyId workerId jobId amount isBank customerRate customerTotal tierId
       wageRate wageTotal legacyRate legacyPay jobNo1 jobNo2 workDate note feesCollected =
     (if workerId = NaN then (Inl DatabaseError, d)
      else if list_ex (\<lambda>e. sql_eq companyId (we_company_id e) \<and> we_job_no1 e = jobNo1)
                (work_entries d)
      then (Inl DuplicateJobReference, d)
      else
        (case (fk_ref companyId (companies d), fk_ref workerId (map wk_id (workers d)),
               tier_ref tierId d) of
           (Some c, Some w, Some t) \<Rightarrow>
             (let new_id = next_work_entry_id d;
                  row = \<lparr> we_id = new_id, we_company_id = c, we_worker_id = w, we_job_id = jobId,
                          we_work_date = workDate, we_job_no1 = jobNo1, we_job_no2 = jobNo2,
                          we_amount = amount, we_rate = legacyRate, we_pay = legacyPay,
                          we_customer_rate = customerRate, we_customer_total = customerTotal,
                          we_fees_collected = Some feesCollected, we_wage_tier_id = t,
                          we_wage_rate = wageRate, we_wage_total = wageTotal,
                          we_is_bank = isBank, we_note = note \<rparr>
              in (Inr \<lparr> cr_id = new_id, cr_fees_collected = feesCollected \<rparr>,
                  d\<lparr>work_entries := work_entries d @ [row], work_entries_seq := new_id\<rparr>))
         | _ \<Rightarrow> (Inl DatabaseError, d)))"

text \<open>
  The handler of \<open>router.post("/")\<close>. The route is registered with no middleware in
  front of the handler, and \<open>app.use("/api/work-entries", workEntryRoutes)\<close> adds none.
\<close>

definition postWorkEntry :: "db \<Rightarrow> request \<Rightarrow> (error + created) \<times> db" where
  "postWorkEntry d req =
     (let b = req_body req;
          companyId = getCompanyId req;
          finalCompanyId = (if truthy (b_company_id b) then Number (b_company_id b)
                            else if num_truthy companyId then companyId
                            else Fin 1)
      in if \<not> num_truthy finalCompanyId \<or> \<not> truthy (b_worker_id b) \<or> \<not> str_truthy (b_job_code b)
            \<or> \<not> truthy (b_amount b) \<or> \<not> str_truthy (b_job_no1 b) \<or> b_work_date b = None
         then (Inl InvalidRequest, d)
         else if nullish (b_customer_rate b) \<or> nullish (b_customer_total b)
                 \<or> nullish (b_wage_rate b) \<or> nullish (b_wage_total b)
         then (Inl InvalidRequest, d)
         else
           (case (toNumOrNull (b_amount b), toNumOrNull (b_customer_rate b),
                  toNumOrNull (b_customer_total b), toNumOrNull (b_wage_rate b),
                  toNumOrNull (b_wage_total b)) of
              (Some amountNum, Some customerRateNum, Some customerTotalNum, Some wageRateNum,
               Some wageTotalNum) \<Rightarrow>
                (let finalFeesCollected =
                       (case toNumOrNull (b_fees_collected b) of
                          None \<Rightarrow> customerTotalNum
                        | Some f \<Rightarrow> f)
                 in case find (\<lambda>j. sql_eq finalCompanyId (j_company_id j)
                                     \<and> j_job_code j = trim (str_of (b_job_code b))) (jobs d) of
                      None \<Rightarrow> (Inl InvalidJobReference, d)
                    | Some jobRow \<Rightarrow>
                        insertWorkEntry d finalCompanyId (Number (b_worker_id b)) (j_id jobRow)
                          amountNum (is_bank_flag (b_is_bank b)) customerRateNum customerTotalNum
                          (if \<not> nullish (b_wage_tier_id b) \<and> b_wage_tier_id b \<noteq> JStr []
                           then Some (Number (b_wage_tier_id b)) else None)
                          wageRateNum wageTotalNum
                          (case toNumOrNull (b_rate b) of Some x \<Rightarrow> x | None \<Rightarrow> wageRateNum)
                          (case toNumOrNull (b_pay b) of Some x \<Rightarrow> x | None \<Rightarrow> wageTotalNum)
                          (trim (str_of (b_job_no1 b))) (trim_or_null (b_job_no2 b))
                          (int_of (b_work_date b)) (trim_or_null (b_note b)) finalFeesCollected)
            | _ \<Rightarrow> (Inl InvalidNumber, d)))"

definition api_postWorkEntry :: "db \<Rightarrow> request \<Rightarrow> (error + created) \<times> db" where
  "api_postWorkEntry d req = postWorkEntry d (withContext req)"

subsection \<open>PUT /api/work-entries/:id\<close>

record updated =
  upd_changes :: nat
  upd_canEditRates :: bool
  upd_fees_collected :: rat

text \<open>The \<open>WHERE id = ? AND company_id = ?\<close> of the update and delete statements.\<close>

definition matches :: "jsnum \<Rightarrow> jsnum \<Rightarrow> work_entry \<Rightarrow> bool" where
  "matches ident companyId e = (sql_eq ident (we_id e) \<and> sql_eq companyId (we_company_id e))"

text \<open>
  \<open>wantsRateChange\<close>: a supplied rate (one that is not \<open>null\<close> or \<open>undefined\<close>) whose
  number is not the stored one.
\<close>

definition wantsRateChange :: "body \<Rightarrow> work_entry \<Rightarrow> bool" where
  "wantsRateChange b existing =
     ((\<not> nullish (b_customer_rate b)
         \<and> strict_neq (Number (b_customer_rate b)) (Fin (we_customer_rate existing)))
      \<or> (\<not> nullish (b_wage_rate b)
         \<and> strict_neq (Number (b_wage_rate b)) (Fin (we_wage_rate existing))))"

text \<open>\<open>finalTierId\<close>: the supplied tier, else the entry's; \<open>None\<close> is \<open>null\<close>.\<close>

definition finalTierId :: "body \<Rightarrow> work_entry \<Rightarrow> jsnum option" where
  "finalTierId b existing =
     (if \<not> nullish (b_wage_tier_id b) \<and> b_wage_tier_id b \<noteq> JStr []
      then Some (Number (b_wage_tier_id b))
      else map_option (\<lambda>t. Fin (of_int t)) (we_wage_tier_id existing))"

text \<open>
  The \<open>SET\<close> clause of the update statement, applied to one row. The legacy columns
  \<open>rate\<close> and \<open>pay\<close> receive the wage rate and the wage total.
\<close>

definition setColumns ::
  "body \<Rightarrow> int \<Rightarrow> rat \<Rightarrow> int \<Rightarrow> int option \<Rightarrow> rat \<Rightarrow> rat \<Rightarrow> rat \<Rightarrow> rat \<Rightarrow> rat
     \<Rightarrow> work_entry \<Rightarrow> work_entry" where
  "setColumns b jobId hrs workerId tierId finalCustomerRate finalCustomerTotal finalWageRate
       finalWageTotal finalFeesCollected e =
     e\<lparr> we_job_id := jobId,
        we_amount := hrs,
        we_is_bank := is_bank_flag (b_is_bank b),
        we_worker_id := workerId,
        we_customer_rate := finalCustomerRate,
        we_customer_total := finalCustomerTotal,
        we_wage_tier_id := tierId,
        we_wage_rate := finalWageRate,
        we_wage_total := finalWageTotal,
        we_rate := finalWageRate,
        we_pay := finalWageTotal,
        we_job_no1 := trim (str_of (b_job_no1 b)),
        we_job_no2 := trim_or_null (b_job_no2 b),
        we_work_date := int_of (b_work_date b),
        we_note := trim_or_null (b_note b),
        we_fees_collected := Some finalFeesCollected \<rparr>"

text \<open>
  \<open>doUpdate(finalCustomerRate, finalCustomerTotal, finalWageRate, finalWageTotal)\<close>:
  the \<open>UPDATE\<close> of the rows with the id and company, with the table's constraints
  (\<open>NOT NULL\<close> of \<open>worker_id\<close>, the uniqueness of \<open>(company_id, job_no1)\<close>, the foreign
  keys). When no row has the id and company, nothing is checked and \<open>changes\<close> is \<open>0\<close>.
\<close>

definition doUpdate ::
  "db \<Rightarrow> jsnum \<Rightarrow> jsnum \<Rightarrow> body \<Rightarrow> int \<Rightarrow> rat \<Rightarrow> jsnum option \<Rightarrow> rat option \<Rightarrow> bool
     \<Rightarrow> rat \<Rightarrow> rat \<Rightarrow> rat \<Rightarrow> rat \<Rightarrow> (error + updated) \<times> db" where
  "doUpdate d ident companyId b jobId hrs tierId requestedFees canEditRates
       finalCustomerRate finalCustomerTotal finalWageRate finalWageTotal =
     (let finalFeesCollected = (case requestedFees of None \<Rightarrow> finalCustomerTotal | Some f \<Rightarrow> f);
          changes = length (filter (matches ident companyId) (work_entries d))
      in if changes = 0 then (Inl NotFound, d)
         else if Number (b_worker_id b) = NaN then (Inl DatabaseError, d)
         else if list_ex (\<lambda>e. \<not> matches ident companyId e \<and> sql_eq companyId (we_company_id e)
                               \<and> we_job_no1 e = trim (str_of (b_job_no1 b))) (work_entries d)
         then (Inl DuplicateJobReference, d)
         else
           (case (fk_ref (Number (b_worker_id b)) (map wk_id (workers d)), tier_ref tierId d) of
              (Some w, Some t) \<Rightarrow>
                (Inr \<lparr> upd_changes = changes, upd_canEditRates = canEditRates,
                       upd_fees_collected = finalFeesCollected \<rparr>,
                 d\<lparr>work_entries :=
                      map (\<lambda>e. if matches ident companyId e
                                then setColumns b jobId hrs w t finalCustomerRate
                                       finalCustomerTotal finalWageRate finalWageTotal
                                       finalFeesCollected e
                                else e)
                        (work_entries d)\<rparr>)
            | _ \<Rightarrow> (Inl DatabaseError, d)))"

text \<open>
  The rate row of the restricted mode: the job's \<open>normal_price\<close> and
  \<open>COALESCE(jw.wage_rate, 0)\<close> of the \<open>job_wages\<close> row joined for the tier.
\<close>

definition rateRow :: "db \<Rightarrow> jsnum option \<Rightarrow> int \<Rightarrow> jsnum \<Rightarrow> (jsnum \<times> jsnum) option" where
  "rateRow d tierId jobId companyId =
     (case find (\<lambda>j. j_id j = jobId \<and> sql_eq companyId (j_company_id j)) (jobs d) of
        None \<Rightarrow> None
      | Some j \<Rightarrow>
          Some (j_normal_price j,
                case find (\<lambda>jw. jw_job_id jw = j_id j
                                 \<and> (case tierId of None \<Rightarrow> False | Some t \<Rightarrow> sql_eq t (jw_tier_id jw))
                                 \<and> jw_company_id jw = j_company_id j) (job_wages d) of
                  None \<Rightarrow> Fin 0
                | Some jw \<Rightarrow> jw_wage_rate jw))"

text \<open>\<open>Number(v || 0)\<close> for a number read from the database.\<close>

definition or_zero :: "jsnum \<Rightarrow> jsnum" where
  "or_zero v = (if num_truthy v then v else Fin 0)"

text \<open>
  The restricted mode (the principal cannot edit rates): both rates come from the rate
  row and must be finite and positive; the totals are the rates times the hours.
\<close>

definition restrictedRates ::
  "db \<Rightarrow> jsnum option \<Rightarrow> int \<Rightarrow> jsnum \<Rightarrow> rat \<Rightarrow> error + (rat \<times> rat \<times> rat \<times> rat)" where
  "restrictedRates d tierId jobId companyId hrs =
     (case rateRow d tierId jobId companyId of
        None \<Rightarrow> Inl RateResolutionFailed
      | Some (customer_rate, wage_rate) \<Rightarrow>
          (case or_zero customer_rate of
             Fin finalCustomerRate \<Rightarrow>
               if finalCustomerRate \<le> 0 then Inl RateResolutionFailed
               else
                 (case or_zero wage_rate of
                    Fin finalWageRate \<Rightarrow>
                      if finalWageRate \<le> 0 then Inl RateResolutionFailed
                      else Inr (finalCustomerRate, finalCustomerRate * hrs,
                                finalWageRate, finalWageRate * hrs)
                  | _ \<Rightarrow> Inl RateResolutionFailed)
           | _ \<Rightarrow> Inl RateResolutionFailed))"

text \<open>The privileged mode: the rates of the request, finite and positive.\<close>

definition privilegedRates :: "body \<Rightarrow> rat \<Rightarrow> error + (rat \<times> rat \<times> rat \<times> rat)" where
  "privilegedRates b hrs =
     (case Number (b_customer_rate b) of
        Fin finalCustomerRate \<Rightarrow>
          if finalCustomerRate \<le> 0 then Inl InvalidRate
          else
            (case Number (b_wage_rate b) of
               Fin finalWageRate \<Rightarrow>
                 if finalWageRate \<le> 0 then Inl InvalidRate
                 else Inr (finalCustomerRate, finalCustomerRate * hrs,
                           finalWageRate, finalWageRate * hrs)
             | _ \<Rightarrow> Inl InvalidRate)
      | _ \<Rightarrow> Inl InvalidRate)"

text \<open>The field checks at the head of the update handler; \<open>Inr hrs\<close> when they pass.\<close>

definition putChecks :: "request \<Rightarrow> error + rat" where
  "putChecks req =
     (let b = req_body req in
      if \<not> num_truthy (string_to_number (params_id req)) \<or> \<not> num_truthy (getCompanyId req)
      then Inl InvalidRequest
      else if \<not> truthy (b_worker_id b) then Inl InvalidRequest
      else if \<not> str_truthy (b_job_code b) \<or> nullish (b_amount b) \<or> \<not> str_truthy (b_job_no1 b)
              \<or> b_work_date b = None
      then Inl InvalidRequest
      else (case Number (b_amount b) of
              Fin hrs \<Rightarrow> if hrs \<le> 0 then Inl InvalidAmount else Inr hrs
            | _ \<Rightarrow> Inl InvalidAmount))"

text \<open>The entry the update loads: id, company and, when a limit applies, the date clause.\<close>

definition loadExisting :: "int \<Rightarrow> db \<Rightarrow> request \<Rightarrow> work_entry option" where
  "loadExisting today d req =
     find (\<lambda>e. matches (string_to_number (params_id req)) (getCompanyId req) e
                \<and> dateClause today (getDaysLimitForUser d req) e)
       (work_entries d)"

definition resolveJob :: "db \<Rightarrow> request \<Rightarrow> job option" where
  "resolveJob d req =
     find (\<lambda>j. sql_eq (getCompanyId req) (j_company_id j)
                \<and> j_job_code j = trim (str_of (b_job_code (req_body req))))
       (jobs d)"

text \<open>
  The handler of \<open>router.put("/:id", requirePermission("WORK_ENTRY_EDIT"), ...)\<close>, the
  middleware included.
\<close>

definition putWorkEntry :: "int \<Rightarrow> db \<Rightarrow> request \<Rightarrow> (error + updated) \<times> db" where
  "putWorkEntry today d req =
     (case requirePermission ''WORK_ENTRY_EDIT'' d req of
        Some e \<Rightarrow> (Inl e, d)
      | None \<Rightarrow>
     (case putChecks req of
        Inl e \<Rightarrow> (Inl e, d)
      | Inr hrs \<Rightarrow>
     (case loadExisting today d req of
        None \<Rightarrow> (Inl OutOfEditWindow, d)
      | Some existing \<Rightarrow>
     (case resolveJob d req of
        None \<Rightarrow> (Inl InvalidJobReference, d)
      | Some jobRow \<Rightarrow>
          (let b = req_body req;
               ident = string_to_number (params_id req);
               companyId = getCompanyId req;
               canEditRates = hasPermissionReq d req ''WORK_ENTRY_EDIT_RATES''
           in if wantsRateChange b existing \<and> \<not> canEditRates then (Inl RateEditForbidden, d)
              else
                (let tierId = finalTierId b existing;
                     requestedFees = toNumOrNull (b_fees_collected b)
                 in if (case requestedFees of None \<Rightarrow> False | Some f \<Rightarrow> f < 0)
                    then (Inl InvalidFees, d)
                    else
                      (case (if \<not> canEditRates
                             then restrictedRates d tierId (j_id jobRow) companyId hrs
                             else privilegedRates b hrs) of
                         Inl e \<Rightarrow> (Inl e, d)
                       | Inr (cr, ct, wr, wt) \<Rightarrow>
                           doUpdate d ident companyId b (j_id jobRow) hrs tierId requestedFees
                             canEditRates cr ct wr wt)))))))"

subsection \<open>DELETE /api/work-entries/:id\<close>


section \<open>Job routes\<close>

record wage_rate_input =
  wri_tier_id :: jsval
  wri_wage_rate :: jsval

text \<open>The body of a job request; \<open>wage_rates\<close> is an array or absent.\<close>

record job_body =
  jb_companyId :: jsval
  jb_company_id :: jsval
  jb_job_code :: "string option"
  jb_job_type :: "string option"
  jb_normal_price :: jsval
  jb_is_active :: jsval
  jb_wage_rates :: "wage_rate_input list option"

record job_request =
  jq_query_companyId :: "string option"
  jq_params_id :: string
  jq_body :: job_body

text \<open>\<open>getCompanyId(req)\<close> of the job routes.\<close>

definition job_getCompanyId :: "job_request \<Rightarrow> jsnum" where
  "job_getCompanyId req =
     (if str_truthy (jq_query_companyId req) then string_to_number (str_of (jq_query_companyId req))
      else if truthy (jb_companyId (jq_body req)) then Number (jb_companyId (jq_body req))
      else if truthy (jb_company_id (jq_body req)) then Number (jb_company_id (jq_body req))
      else Fin 1)"

text \<open>
  \<open>normalizeWageRates(input)\<close>: the pairs \<open>(Number(tier_id), Number(wage_rate || 0))\<close>
  whose tier is not \<open>NaN\<close>.
\<close>

definition normalizeWageRates :: "wage_rate_input list option \<Rightarrow> (jsnum \<times> jsnum) list" where
  "normalizeWageRates input =
     (case input of
        None \<Rightarrow> []
      | Some xs \<Rightarrow>
          filter (\<lambda>x. fst x \<noteq> NaN)
            (map (\<lambda>x. (Number (wri_tier_id x),
                        if truthy (wri_wage_rate x) then Number (wri_wage_rate x) else Fin 0))
               xs))"

text \<open>
  One \<open>INSERT INTO job_wages ... ON CONFLICT(job_id, tier_id) DO UPDATE SET wage_rate =
  excluded.wage_rate\<close>. A statement that violates a constraint (an unknown tier or
  company, a \<open>NaN\<close> rate) changes nothing.
\<close>

definition upsertJobWage :: "jsnum \<Rightarrow> int \<Rightarrow> db \<Rightarrow> jsnum \<times> jsnum \<Rightarrow> db" where
  "upsertJobWage companyId jobId d r =
     (case (fk_ref companyId (companies d), fk_ref (fst r) (map wt_id (wage_tiers d))) of
        (Some c, Some t) \<Rightarrow>
          if snd r = NaN then d
          else if list_ex (\<lambda>jw. jw_job_id jw = jobId \<and> jw_tier_id jw = t) (job_wages d)
          then d\<lparr>job_wages :=
                   map (\<lambda>jw. if jw_job_id jw = jobId \<and> jw_tier_id jw = t
                              then jw\<lparr>jw_wage_rate := snd r\<rparr> else jw)
                     (job_wages d)\<rparr>
          else d\<lparr>job_wages := job_wages d @
                   [\<lparr> jw_company_id = c, jw_job_id = jobId, jw_tier_id = t, jw_wage_rate = snd r \<rparr>]\<rparr>
      | _ \<Rightarrow> d)"

text \<open>
  The handler of \<open>router.put("/:id")\<close> of the job routes: the \<open>UPDATE jobs\<close> of the rows
  with the id and company, then one upsert per normalised wage rate. \<open>Inl NotFound\<close> is
  404 "Job not found", \<open>Inl DatabaseError\<close> the 500 of a violated constraint
  (\<open>NOT NULL\<close>, or the uniqueness of \<open>(company_id, job_code)\<close>).
\<close>

definition putJob :: "db \<Rightarrow> job_request \<Rightarrow> (error + unit) \<times> db" where
  "putJob d req =
     (let b = jq_body req;
          companyId = job_getCompanyId req;
          jobId = string_to_number (jq_params_id req);
          rates = normalizeWageRates (jb_wage_rates b);
          price = (if truthy (jb_normal_price b) then Number (jb_normal_price b) else Fin 0);
          active = (if nullish (jb_is_active b) then Fin 1 else Number (jb_is_active b));
          hit = (\<lambda>j. sql_eq jobId (j_id j) \<and> sql_eq companyId (j_company_id j))
      in if \<not> list_ex hit (jobs d) then (Inl NotFound, d)
         else
           (case (jb_job_code b, jb_job_type b, sql_int jobId) of
              (Some code, Some type, Some jid) \<Rightarrow>
                if price = NaN \<or> active = NaN then (Inl DatabaseError, d)
                else if list_ex (\<lambda>j. \<not> hit j \<and> sql_eq companyId (j_company_id j)
                                      \<and> j_job_code j = code) (jobs d)
                then (Inl DatabaseError, d)
                else
                  (Inr (),
                   fold (\<lambda>r acc. upsertJobWage companyId jid acc r) rates
                     (d\<lparr>jobs := map (\<lambda>j. if hit j
                                           then j\<lparr> j_job_code := code, j_job_type := type,
                                                  j_normal_price := price, j_is_active := active \<rparr>
                                           else j)
                                   (jobs d)\<rparr>))
            | _ \<Rightarrow> (Inl DatabaseError, d)))"

section \<open>Example data\<close>

text \<open>
  One company with the seeded roles: user 1 is an administrator, user 2 has the role
  \<open>staff\<close> (window of 30 days) and a personal override of 0, user 3 has the role
  \<open>manager\<close> (which holds \<open>WORK_ENTRY_EDIT\<close> but not \<open>WORK_ENTRY_EDIT_RATES\<close>), a personal
  window of 30 days and a \<open>DENY\<close> row for \<open>WORK_ENTRY_EDIT\<close>; user 4 has no role. Job
  \<open>J1\<close> has base price 30 and wage 12 in tier 1. Entry 1 is dated day 100, entry 2 day
  80; the examples take day 120 as today.
\<close>

definition demo_db :: db where
  "demo_db =
     \<lparr> companies = [1],
       users =
         [\<lparr> u_id = 1, u_company_id = None, u_is_active = 1, u_is_admin = 1, u_role_id = Some 1 \<rparr>,
          \<lparr> u_id = 2, u_company_id = Some 1, u_is_active = 1, u_is_admin = 0, u_role_id = Some 3 \<rparr>,
          \<lparr> u_id = 3, u_company_id = Some 1, u_is_active = 1, u_is_admin = 0, u_role_id = Some 2 \<rparr>,
          \<lparr> u_id = 4, u_company_id = Some 1, u_is_active = 1, u_is_admin = 0, u_role_id = None \<rparr>],
       roles =
         [\<lparr> r_id = 1, r_company_id = None, r_code = ''super_admin'',
            r_work_entries_days_limit = None \<rparr>,
          \<lparr> r_id = 2, r_company_id = None, r_code = ''manager'',
            r_work_entries_days_limit = None \<rparr>,
          \<lparr> r_id = 3, r_company_id = None, r_code = ''staff'',
            r_work_entries_days_limit = Some 30 \<rparr>],
       permissions =
         [\<lparr> p_id = 1, p_code = ''WORK_ENTRY_CREATE'', p_is_active = 1 \<rparr>,
          \<lparr> p_id = 2, p_code = ''WORK_ENTRY_EDIT'', p_is_active = 1 \<rparr>,
          \<lparr> p_id = 3, p_code = ''WORK_ENTRY_DELETE'', p_is_active = 1 \<rparr>,
          \<lparr> p_id = 4, p_code = ''WORK_ENTRY_EDIT_RATES'', p_is_active = 1 \<rparr>],
       role_permissions =
         [\<lparr> rp_role_id = 1, rp_permission_id = 1 \<rparr>, \<lparr> rp_role_id = 1, rp_permission_id = 2 \<rparr>,
          \<lparr> rp_role_id = 1, rp_permission_id = 3 \<rparr>, \<lparr> rp_role_id = 1, rp_permission_id = 4 \<rparr>,
          \<lparr> rp_role_id = 2, rp_permission_id = 1 \<rparr>, \<lparr> rp_role_id = 2, rp_permission_id = 2 \<rparr>,
          \<lparr> rp_role_id = 2, rp_permission_id = 3 \<rparr>, \<lparr> rp_role_id = 3, rp_permission_id = 1 \<rparr>],
       user_permissions =
         [\<lparr> up_user_id = 3, up_permission_id = 2, up_effect = DENY \<rparr>],
       user_settings =
         [\<lparr> us_user_id = 2, us_work_entries_days_limit_override = Some 0 \<rparr>,
          \<lparr> us_user_id = 3, us_work_entries_days_limit_override = Some 30 \<rparr>],
       jobs =
         [\<lparr> j_id = 1, j_company_id = 1, j_job_code = ''J1'', j_job_type = ''Massage'',
            j_normal_price = Fin 30, j_is_active = Fin 1 \<rparr>],
       job_wages =
         [\<lparr> jw_company_id = 1, jw_job_id = 1, jw_tier_id = 1, jw_wage_rate = Fin 12 \<rparr>],
       wage_tiers = [\<lparr> wt_id = 1, wt_company_id = 1, wt_tier_name = ''Tier 1'' \<rparr>],
       workers =
         [\<lparr> wk_id = 1, wk_company_id = 1, wk_worker_code = ''W1'', wk_worker_name = Some ''Ann'' \<rparr>],
       work_entries =
         [\<lparr> we_id = 1, we_company_id = 1, we_worker_id = 1, we_job_id = 1, we_work_date = 100,
            we_job_no1 = ''A1'', we_job_no2 = None, we_amount = 3, we_rate = 20, we_pay = 60,
            we_customer_rate = 50, we_customer_total = 150, we_fees_collected = Some 150,
            we_wage_tier_id = Some 1, we_wage_rate = 20, we_wage_total = 60, we_is_bank = 0,
            we_note = None \<rparr>,
          \<lparr> we_id = 2, we_company_id = 1, we_worker_id = 1, we_job_id = 1, we_work_date = 80,
            we_job_no1 = ''A2'', we_job_no2 = None, we_amount = 3, we_rate = 20, we_pay = 60,
            we_customer_rate = 50, we_customer_total = 150, we_fees_collected = Some 150,
            we_wage_tier_id = Some 1, we_wage_rate = 20, we_wage_total = 60, we_is_bank = 0,
            we_note = None \<rparr>],
       work_entries_seq = 2 \<rparr>"

definition admin_user :: session_user where
  "admin_user = \<lparr> su_id = 1, su_company_id = None, su_is_admin = 1, su_permissions = [] \<rparr>"

definition staff_user :: session_user where
  "staff_user = \<lparr> su_id = 2, su_company_id = Some 1, su_is_admin = 0,
                  su_permissions = [''WORK_ENTRY_CREATE''] \<rparr>"

definition manager_user :: session_user where
  "manager_user = \<lparr> su_id = 3, su_company_id = Some 1, su_is_admin = 0,
                    su_permissions = [''WORK_ENTRY_CREATE'', ''WORK_ENTRY_EDIT'', ''WORK_ENTRY_DELETE''] \<rparr>"

definition norole_user :: session_user where
  "norole_user = \<lparr> su_id = 4, su_company_id = Some 1, su_is_admin = 0, su_permissions = [] \<rparr>"

text \<open>A body with every field absent, and a request with no query, body or session.\<close>

definition empty_body :: body where
  "empty_body =
     \<lparr> b_company_id = JUndefined, b_worker_id = JUndefined, b_job_code = None,
       b_amount = JUndefined, b_is_bank = JUndefined, b_customer_rate = JUndefined,
       b_customer_total = JUndefined, b_wage_tier_id = JUndefined, b_wage_rate = JUndefined,
       b_wage_total = JUndefined, b_rate = JUndefined, b_pay = JUndefined, b_job_no1 = None,
       b_job_no2 = None, b_work_date = None, b_fees_collected = JUndefined, b_note = None \<rparr>"

definition anonymous_request :: request where
  "anonymous_request =
     \<lparr> query_companyId = None, params_id = [], req_body = empty_body,
       req_session = \<lparr> sess_user = None, activeCompanyId = None \<rparr> \<rparr>"

definition request_of :: "session_user \<Rightarrow> string \<Rightarrow> body \<Rightarrow> request" where
  "request_of user ident b =
     \<lparr> query_companyId = Some ''1'', params_id = ident, req_body = b,
       req_session = \<lparr> sess_user = Some user, activeCompanyId = su_company_id user \<rparr> \<rparr>"

text \<open>
  The fields an edit form sends for an entry of worker 1 on job \<open>J1\<close>: 4 hours, no
  rates.
\<close>

definition edit_body :: body where
  "edit_body =
     empty_body\<lparr> b_worker_id := JNum (Fin 1), b_job_code := Some ''J1'', b_amount := JNum (Fin 4),
                 b_job_no1 := Some ''A1'', b_work_date := Some 100 \<rparr>"

text \<open>
  The per-user override rows of the schema's table \<open>user_permissions\<close> for a user and a
  permission code. No statement of the repository reads or writes this table.
\<close>

definition has_override :: "db \<Rightarrow> int \<Rightarrow> string \<Rightarrow> effect \<Rightarrow> bool" where
  "has_override d uid code eff =
     list_ex (\<lambda>up. up_user_id up = uid \<and> up_effect up = eff \<and>
                list_ex (\<lambda>p. p_id p = up_permission_id up \<and> p_code p = code) (permissions d))
       (user_permissions d)"

text \<open>The fields a create form sends: 3 hours at customer rate 50 and wage rate 20.\<close>

definition create_body :: body where
  "create_body =
     edit_body\<lparr> b_job_no1 := Some ''B7'', b_amount := JNum (Fin 3),
                b_customer_rate := JNum (Fin 50), b_customer_total := JNum (Fin 150),
                b_wage_rate := JNum (Fin 20), b_wage_total := JNum (Fin 60) \<rparr>"

text \<open>A job update that raises the base price of job 1 to 99 and its tier-1 wage to 40.\<close>

definition price_change :: job_request where
  "price_change =
     \<lparr> jq_query_companyId = Some ''1'', jq_params_id = ''1'',
       jq_body =
         \<lparr> jb_companyId = JUndefined, jb_company_id = JUndefined, jb_job_code = Some ''J1'',
           jb_job_type = Some ''Massage'', jb_normal_price = JNum (Fin 99),
           jb_is_active = JNum (Fin 1),
           jb_wage_rates = Some [\<lparr> wri_tier_id = JNum (Fin 1), wri_wage_rate = JNum (Fin 40) \<rparr>] \<rparr> \<rparr>"


section \<open>Properties\<close>

subsection \<open>Permission checks\<close>

lemma role_grant_row_user_permissions:
  "role_grant_row (d\<lparr>user_permissions := ups\<rparr>) uid code = role_grant_row d uid code"
  by (simp add: role_grant_row_def)

text \<open>
  C4. The claim is that a \<open>DENY\<close> override on a code makes the permission check fail for a
  principal who is not an administrator, even when the role grants the code. The
  permission checks never read \<open>user_permissions\<close>. In the example data user 3 has a
  \<open>DENY\<close> row for \<open>WORK_ENTRY_EDIT\<close>, the role \<open>manager\<close> grants it, and all three checks
  let the user through.
\<close>

theorem C4_deny_override_counterexample:
  "has_override demo_db (su_id manager_user) ''WORK_ENTRY_EDIT'' DENY
   \<and> su_is_admin manager_user \<noteq> 1
   \<and> hasPermission demo_db (su_id manager_user) ''WORK_ENTRY_EDIT''
   \<and> hasPermissionReq demo_db (request_of manager_user ''1'' edit_body) ''WORK_ENTRY_EDIT''
   \<and> requirePermission ''WORK_ENTRY_EDIT'' demo_db (request_of manager_user ''1'' edit_body) = None"
  by code_simp

text \<open>
  C4, as the code has it. For a signed-in principal who is not an administrator, each of
  the three checks (\<open>hasPermission\<close>, the route-local \<open>hasPermission\<close>,
  \<open>requirePermission\<close>) passes exactly when the join of the user's role, its grants and
  the active permission with that code has a row; the rows of \<open>user_permissions\<close>,
  whatever they are, do not change the answer.
\<close>

theorem C4_overrides_not_consulted:
  assumes "sess_user (req_session req) = Some user"
    and "su_id user \<noteq> 0" and "su_is_admin user \<noteq> 1"
  shows "hasPermission (d\<lparr>user_permissions := ups\<rparr>) (su_id user) code
           = role_grant_row d (su_id user) code
       \<and> hasPermissionReq (d\<lparr>user_permissions := ups\<rparr>) req code
           = role_grant_row d (su_id user) code
       \<and> (requirePermission code (d\<lparr>user_permissions := ups\<rparr>) req = None)
           = role_grant_row d (su_id user) code"
  using assms
  by (simp add: hasPermission_def hasPermissionReq_def requirePermission_def
      role_grant_row_user_permissions)

theorem C4_overrides_not_consulted_witness:
  "sess_user (req_session (request_of manager_user ''1'' edit_body)) = Some manager_user
   \<and> su_id manager_user \<noteq> 0 \<and> su_is_admin manager_user \<noteq> 1
   \<and> hasPermission (demo_db\<lparr>user_permissions := []\<rparr>) (su_id manager_user) ''WORK_ENTRY_EDIT''
        = role_grant_row demo_db (su_id manager_user) ''WORK_ENTRY_EDIT''
   \<and> role_grant_row demo_db (su_id manager_user) ''WORK_ENTRY_EDIT''"
proof -
  have a: "sess_user (req_session (request_of manager_user ''1'' edit_body)) = Some manager_user"
    by (simp add: request_of_def)
  have b: "su_id manager_user \<noteq> 0" "su_is_admin manager_user \<noteq> 1"
    by (simp_all add: manager_user_def)
  have c: "role_grant_row demo_db (su_id manager_user) ''WORK_ENTRY_EDIT''"
    by code_simp
  from C4_overrides_not_consulted
         [OF a b, where d = demo_db and ups = "[]" and code = "''WORK_ENTRY_EDIT''"] a b c
  show ?thesis by simp
qed

text \<open>
  C5. For a signed-in principal whose admin flag is set, every permission check answers
  yes, for every code and every state of the role and permission tables: the middleware
  \<open>requirePermission\<close>, the route-local \<open>hasPermission\<close>, the two page routes that call
  the exported \<open>hasPermission\<close> behind a test of the flag, and the views' \<open>can\<close>.
\<close>

theorem C5_admin_bypass:
  assumes "sess_user (req_session req) = Some user"
    and "su_id user \<noteq> 0" and "su_is_admin user = 1"
  shows "requirePermission code d req = None
       \<and> hasPermissionReq d req code
       \<and> canSeeRates d user
       \<and> canFilterPayType d user
       \<and> can (sess_user (req_session req)) code"
  using assms
  by (simp add: requirePermission_def hasPermissionReq_def canSeeRates_def
      canFilterPayType_def can_def)

theorem C5_admin_bypass_witness:
  "sess_user (req_session (request_of admin_user ''1'' edit_body)) = Some admin_user
   \<and> su_id admin_user \<noteq> 0 \<and> su_is_admin admin_user = 1
   \<and> \<not> role_grant_row (demo_db\<lparr>role_permissions := []\<rparr>) (su_id admin_user) ''NO_SUCH_CODE''
   \<and> requirePermission ''NO_SUCH_CODE'' (demo_db\<lparr>role_permissions := []\<rparr>)
        (request_of admin_user ''1'' edit_body) = None
   \<and> hasPermissionReq (demo_db\<lparr>role_permissions := []\<rparr>) (request_of admin_user ''1'' edit_body)
        ''NO_SUCH_CODE''"
proof -
  have a: "sess_user (req_session (request_of admin_user ''1'' edit_body)) = Some admin_user"
    by (simp add: request_of_def)
  have b: "su_id admin_user \<noteq> 0" "su_is_admin admin_user = 1"
    by (simp_all add: admin_user_def)
  have c: "\<not> role_grant_row (demo_db\<lparr>role_permissions := []\<rparr>) (su_id admin_user) ''NO_SUCH_CODE''"
    by code_simp
  from C5_admin_bypass
         [OF a b, where code = "''NO_SUCH_CODE''" and d = "demo_db\<lparr>role_permissions := []\<rparr>"]
       a b c
  show ?thesis by simp
qed

subsection \<open>Edit window\<close>

text \<open>
  C6. The claim is that a personal override of zero or less falls back to the role's
  limit. In the example data user 2 has the override 0 and the role \<open>staff\<close> with a limit
  of 30 days, and the resolved window is \<open>null\<close>: unlimited.
\<close>

theorem C6_zero_override_counterexample:
  "su_is_admin staff_user \<noteq> 1
   \<and> find (\<lambda>u. u_id u = su_id staff_user) (users demo_db) = Some (users demo_db ! 1)
   \<and> override_limit demo_db (users demo_db ! 1) = Some 0
   \<and> role_limit demo_db (users demo_db ! 1) = Some 30
   \<and> getDaysLimitForUser demo_db (request_of staff_user ''1'' edit_body) = None"
  by code_simp

text \<open>
  C6, as the code has it. For a signed-in principal who is not an administrator and has
  a row in \<open>users\<close>: a personal override that is present decides alone, giving its value
  when positive and \<open>null\<close> (unlimited) when zero or negative; the role's limit is used
  only when no override is present, giving its value when positive and \<open>null\<close>
  otherwise.
\<close>

theorem C6_edit_window_days:
  assumes "sess_user (req_session req) = Some su"
    and "su_id su \<noteq> 0" and "su_is_admin su \<noteq> 1"
    and "find (\<lambda>u. u_id u = su_id su) (users d) = Some u"
  shows "getDaysLimitForUser d req =
           (case override_limit d u of
              Some v \<Rightarrow> if 0 < v then Some v else None
            | None \<Rightarrow> (case role_limit d u of
                         Some l \<Rightarrow> if 0 < l then Some l else None
                       | None \<Rightarrow> None))"
  using assms
  by (auto simp add: getDaysLimitForUser_def split: option.splits)

theorem C6_edit_window_days_witness:
  "sess_user (req_session (request_of manager_user ''1'' edit_body)) = Some manager_user
   \<and> su_id manager_user \<noteq> 0 \<and> su_is_admin manager_user \<noteq> 1
   \<and> find (\<lambda>u. u_id u = su_id manager_user) (users demo_db) = Some (users demo_db ! 2)
   \<and> override_limit demo_db (users demo_db ! 2) = Some 30
   \<and> getDaysLimitForUser demo_db (request_of manager_user ''1'' edit_body) = Some 30"
proof -
  have a: "sess_user (req_session (request_of manager_user ''1'' edit_body)) = Some manager_user"
    by (simp add: request_of_def)
  have b: "su_id manager_user \<noteq> 0" "su_is_admin manager_user \<noteq> 1"
    by (simp_all add: manager_user_def)
  have c: "find (\<lambda>u. u_id u = su_id manager_user) (users demo_db) = Some (users demo_db ! 2)"
    by code_simp
  have e: "override_limit demo_db (users demo_db ! 2) = Some 30"
    by code_simp
  from C6_edit_window_days [OF a b c] a b c e
  show ?thesis by simp
qed

subsection \<open>The update route, stage by stage\<close>

lemma putChecks_error:
  "putChecks req = Inl e \<Longrightarrow> e = InvalidRequest \<or> e = InvalidAmount"
  by (auto simp add: putChecks_def Let_def split: jsnum.splits if_splits)

lemma requirePermission_error:
  "requirePermission code d req = Some e \<Longrightarrow> e = Unauthenticated \<or> e = Forbidden code"
  by (auto simp add: requirePermission_def split: option.splits if_splits)






lemma matches_setColumns:
  "matches ident companyId (setColumns b jobId hrs w t cr ct wr wt ff e) = matches ident companyId e"
  by (simp add: matches_def setColumns_def)

lemma doUpdate_rows:
  assumes "doUpdate d ident companyId b jobId hrs tierId fees cer cr ct wr wt = (Inr r, d')"
  shows "\<exists>w t ff. work_entries d' =
            map (\<lambda>e. if matches ident companyId e
                      then setColumns b jobId hrs w t cr ct wr wt ff e else e)
              (work_entries d)
         \<and> filter (matches ident companyId) (work_entries d) \<noteq> []"
proof -
  from assms have ne: "filter (matches ident companyId) (work_entries d) \<noteq> []"
    by (auto simp add: doUpdate_def Let_def split: if_splits)
  from assms ne obtain w t where
    refs: "fk_ref (Number (b_worker_id b)) (map wk_id (workers d)) = Some w"
          "tier_ref tierId d = Some t"
    by (auto simp add: doUpdate_def Let_def split: if_splits option.splits prod.splits)
  from assms ne refs have
    "work_entries d' =
       map (\<lambda>e. if matches ident companyId e
                 then setColumns b jobId hrs w t cr ct wr wt
                        (case fees of None \<Rightarrow> ct | Some f \<Rightarrow> f) e
                 else e)
         (work_entries d)"
    by (auto simp add: doUpdate_def Let_def split: if_splits)
  with ne show ?thesis by blast
qed

text \<open>After a successful write every row with the id and company holds the values passed.\<close>

lemma doUpdate_stored:
  assumes "doUpdate d ident companyId b jobId hrs tierId fees cer cr ct wr wt = (Inr r, d')"
  shows "list_all (\<lambda>e. matches ident companyId e \<longrightarrow>
             we_amount e = hrs \<and> we_customer_rate e = cr \<and> we_customer_total e = ct
             \<and> we_wage_rate e = wr \<and> we_wage_total e = wt \<and> we_rate e = wr \<and> we_pay e = wt)
           (work_entries d')
       \<and> list_ex (matches ident companyId) (work_entries d')"
proof -
  from doUpdate_rows [OF assms] obtain w t ff where
    d': "work_entries d' =
           map (\<lambda>e. if matches ident companyId e
                     then setColumns b jobId hrs w t cr ct wr wt ff e else e)
             (work_entries d)"
    and some: "filter (matches ident companyId) (work_entries d) \<noteq> []"
    by blast
  from some obtain e0 where e0: "e0 \<in> set (work_entries d)" "matches ident companyId e0"
    by (auto simp add: filter_empty_conv)
  then have "setColumns b jobId hrs w t cr ct wr wt ff e0 \<in> set (work_entries d')"
    unfolding d' by force
  then have "list_ex (matches ident companyId) (work_entries d')"
    unfolding list_ex_iff using e0(2) matches_setColumns by blast
  moreover have "list_all (\<lambda>e. matches ident companyId e \<longrightarrow>
             we_amount e = hrs \<and> we_customer_rate e = cr \<and> we_customer_total e = ct
             \<and> we_wage_rate e = wr \<and> we_wage_total e = wt \<and> we_rate e = wr \<and> we_pay e = wt)
           (work_entries d')"
    unfolding d' list_all_iff by (auto simp add: setColumns_def)
  ultimately show ?thesis by simp
qed

text \<open>A successful update is a successful write.\<close>

lemma putWorkEntry_success:
  assumes "putWorkEntry today d req = (Inr r, d')"
  shows "\<exists>jobId hrs tierId fees cr ct wr wt.
           doUpdate d (string_to_number (params_id req)) (getCompanyId req) (req_body req)
             jobId hrs tierId fees (hasPermissionReq d req ''WORK_ENTRY_EDIT_RATES'') cr ct wr wt
           = (Inr r, d')"
  using assms
  apply (auto simp add: putWorkEntry_def Let_def
      split: option.splits sum.splits if_splits prod.splits)
     apply blast+
  done





subsection \<open>Edit-window gate of the update\<close>



subsection \<open>Rate changes without the capability\<close>

text \<open>
  C2. A principal without \<open>WORK_ENTRY_EDIT_RATES\<close> sends an update whose customer rate
  or wage rate is supplied and is not the number stored in the entry the update loads.
  Then the database is unchanged and the update fails: with \<open>RateEditForbidden\<close>, unless
  an earlier step has already answered (no session, no \<open>WORK_ENTRY_EDIT\<close>, a field
  check, an unknown job code). When those steps pass, the answer is
  \<open>RateEditForbidden\<close>. The comparison is with the stored row and no write precedes it.
\<close>

theorem C2_rate_edit_forbidden:
  assumes "\<not> hasPermissionReq d req ''WORK_ENTRY_EDIT_RATES''"
    and "loadExisting today d req = Some existing"
    and "wantsRateChange (req_body req) existing"
  shows "snd (putWorkEntry today d req) = d
       \<and> fst (putWorkEntry today d req) \<in>
           {Inl RateEditForbidden, Inl Unauthenticated, Inl (Forbidden ''WORK_ENTRY_EDIT''),
            Inl InvalidRequest, Inl InvalidAmount, Inl InvalidJobReference}
       \<and> (requirePermission ''WORK_ENTRY_EDIT'' d req = None \<and> putChecks req = Inr hrs
            \<and> resolveJob d req = Some jobRow
          \<longrightarrow> putWorkEntry today d req = (Inl RateEditForbidden, d))"
  using assms
  by (auto simp add: putWorkEntry_def Let_def split: option.splits sum.splits
      dest: putChecks_error requirePermission_error)

theorem C2_rate_edit_forbidden_witness:
  "\<not> hasPermissionReq demo_db
        (request_of manager_user ''1'' (edit_body\<lparr> b_wage_rate := JNum (Fin 25) \<rparr>))
        ''WORK_ENTRY_EDIT_RATES''
   \<and> map_option we_wage_rate
        (loadExisting 120 demo_db
           (request_of manager_user ''1'' (edit_body\<lparr> b_wage_rate := JNum (Fin 25) \<rparr>))) = Some 20
   \<and> putWorkEntry 120 demo_db
        (request_of manager_user ''1'' (edit_body\<lparr> b_wage_rate := JNum (Fin 25) \<rparr>))
       = (Inl RateEditForbidden, demo_db)"
proof -
  let ?req = "request_of manager_user ''1'' (edit_body\<lparr> b_wage_rate := JNum (Fin 25) \<rparr>)"
  have a: "\<not> hasPermissionReq demo_db ?req ''WORK_ENTRY_EDIT_RATES''"
    by code_simp
  have b: "loadExisting 120 demo_db ?req = Some (hd (work_entries demo_db))"
    by code_simp
  have c: "wantsRateChange (req_body ?req) (hd (work_entries demo_db))"
    by code_simp
  have e: "requirePermission ''WORK_ENTRY_EDIT'' demo_db ?req = None"
    by code_simp
  have f: "putChecks ?req = Inr 4"
    by code_simp
  have g: "resolveJob demo_db ?req = Some (hd (jobs demo_db))"
    by code_simp
  have h: "we_wage_rate (hd (work_entries demo_db)) = 20"
    by code_simp
  from C2_rate_edit_forbidden [OF a b c, where hrs = 4 and jobRow = "hd (jobs demo_db)"]
    a b e f g h
  show ?thesis by simp
qed

subsection \<open>Rates in the restricted mode\<close>



subsection \<open>Legacy columns\<close>

text \<open>
  C10. After a successful update, in either mode, every row with the id and company of
  the request has \<open>rate = wage_rate\<close> and \<open>pay = wage_total\<close>, and there is such a row.
\<close>

theorem C10_legacy_mirror:
  assumes "fst (putWorkEntry today d req) = Inr r"
  shows "list_all (\<lambda>e. matches (string_to_number (params_id req)) (getCompanyId req) e
                        \<longrightarrow> we_rate e = we_wage_rate e \<and> we_pay e = we_wage_total e)
           (work_entries (snd (putWorkEntry today d req)))
       \<and> list_ex (matches (string_to_number (params_id req)) (getCompanyId req))
           (work_entries (snd (putWorkEntry today d req)))"
proof -
  from assms have "putWorkEntry today d req = (Inr r, snd (putWorkEntry today d req))"
    by (simp add: prod_eq_iff)
  from putWorkEntry_success [OF this] obtain jobId hrs tierId fees cr ct wr wt where
    "doUpdate d (string_to_number (params_id req)) (getCompanyId req) (req_body req)
       jobId hrs tierId fees (hasPermissionReq d req ''WORK_ENTRY_EDIT_RATES'') cr ct wr wt
     = (Inr r, snd (putWorkEntry today d req))"
    by blast
  from doUpdate_stored [OF this] show ?thesis
    by (auto simp add: list_all_iff)
qed

theorem C10_legacy_mirror_witness:
  "fst (putWorkEntry 120 demo_db (request_of manager_user ''1'' edit_body))
     = Inr \<lparr> upd_changes = 1, upd_canEditRates = False, upd_fees_collected = 120 \<rparr>
   \<and> fst (putWorkEntry 120 demo_db (request_of admin_user ''1''
             (edit_body\<lparr> b_customer_rate := JNum (Fin 55), b_wage_rate := JNum (Fin 25) \<rparr>)))
     = Inr \<lparr> upd_changes = 1, upd_canEditRates = True, upd_fees_collected = 220 \<rparr>
   \<and> list_all (\<lambda>e. matches (string_to_number ''1'')
                       (getCompanyId (request_of manager_user ''1'' edit_body)) e
                       \<longrightarrow> we_rate e = we_wage_rate e \<and> we_pay e = we_wage_total e)
           (work_entries (snd (putWorkEntry 120 demo_db (request_of manager_user ''1'' edit_body))))
   \<and> map (\<lambda>e. (we_id e, we_rate e, we_wage_rate e, we_pay e, we_wage_total e))
       (work_entries (snd (putWorkEntry 120 demo_db (request_of manager_user ''1'' edit_body))))
     = [(1, 12, 12, 48, 48), (2, 20, 20, 60, 60)]"
proof -
  have a: "fst (putWorkEntry 120 demo_db (request_of manager_user ''1'' edit_body))
             = Inr \<lparr> upd_changes = 1, upd_canEditRates = False, upd_fees_collected = 120 \<rparr>"
    by code_simp
  have b: "fst (putWorkEntry 120 demo_db (request_of admin_user ''1''
             (edit_body\<lparr> b_customer_rate := JNum (Fin 55), b_wage_rate := JNum (Fin 25) \<rparr>)))
     = Inr \<lparr> upd_changes = 1, upd_canEditRates = True, upd_fees_collected = 220 \<rparr>"
    by code_simp
  have c: "map (\<lambda>e. (we_id e, we_rate e, we_wage_rate e, we_pay e, we_wage_total e))
       (work_entries (snd (putWorkEntry 120 demo_db (request_of manager_user ''1'' edit_body))))
     = [(1, 12, 12, 48, 48), (2, 20, 20, 60, 60)]"
    by code_simp
  have p: "params_id (request_of manager_user ''1'' edit_body) = ''1''"
    by (simp add: request_of_def)
  from C10_legacy_mirror [OF a] a b c p show ?thesis by simp
qed

subsection \<open>Snapshots and job updates\<close>

lemma upsertJobWage_work_entries:
  "work_entries (upsertJobWage companyId jobId d r) = work_entries d"
  by (simp add: upsertJobWage_def split: option.splits prod.splits)

lemma fold_upsertJobWage_work_entries:
  "work_entries (fold (\<lambda>r acc. upsertJobWage companyId jobId acc r) rates d) = work_entries d"
  by (induction rates arbitrary: d) (simp_all add: upsertJobWage_work_entries)

lemma putJob_work_entries:
  "work_entries (snd (putJob d jreq)) = work_entries d"
  by (simp add: putJob_def Let_def fold_upsertJobWage_work_entries
      split: option.splits prod.splits)

lemma toNumOrNull_Some: "toNumOrNull v = Some x \<Longrightarrow> Number v = Fin x"
  by (auto simp add: toNumOrNull_def split: if_splits jsnum.splits)

lemma insertWorkEntry_row:
  assumes "fst (insertWorkEntry d companyId workerId jobId amount isBank cr ct tierId wr wt
                  lr lp jobNo1 jobNo2 workDate nt fees) = Inr c"
  shows "\<exists>e\<in>set (work_entries (snd (insertWorkEntry d companyId workerId jobId amount isBank
                     cr ct tierId wr wt lr lp jobNo1 jobNo2 workDate nt fees))).
           we_id e = cr_id c \<and> we_amount e = amount \<and> we_customer_rate e = cr
           \<and> we_customer_total e = ct \<and> we_wage_rate e = wr \<and> we_wage_total e = wt"
  using assms
  by (auto simp add: insertWorkEntry_def Let_def split: if_splits option.splits prod.splits)

lemma postWorkEntry_row:
  assumes "fst (postWorkEntry d req) = Inr c"
  shows "\<exists>e\<in>set (work_entries (snd (postWorkEntry d req))).
           we_id e = cr_id c
           \<and> Fin (we_amount e) = Number (b_amount (req_body req))
           \<and> Fin (we_customer_rate e) = Number (b_customer_rate (req_body req))
           \<and> Fin (we_customer_total e) = Number (b_customer_total (req_body req))
           \<and> Fin (we_wage_rate e) = Number (b_wage_rate (req_body req))
           \<and> Fin (we_wage_total e) = Number (b_wage_total (req_body req))"
proof -
  from assms obtain a cr ct wr wt where nums:
    "toNumOrNull (b_amount (req_body req)) = Some a"
    "toNumOrNull (b_customer_rate (req_body req)) = Some cr"
    "toNumOrNull (b_customer_total (req_body req)) = Some ct"
    "toNumOrNull (b_wage_rate (req_body req)) = Some wr"
    "toNumOrNull (b_wage_total (req_body req)) = Some wt"
    by (auto simp add: postWorkEntry_def Let_def split: if_splits option.splits prod.splits)
  from assms nums obtain companyId workerId jobId isBank tierId lr lp jobNo1 jobNo2 workDate nt fees
    where ins: "postWorkEntry d req =
             insertWorkEntry d companyId workerId jobId a isBank cr ct tierId wr wt
               lr lp jobNo1 jobNo2 workDate nt fees"
    by (auto simp add: postWorkEntry_def Let_def split: if_splits option.splits prod.splits)
  from insertWorkEntry_row [of d companyId workerId jobId a isBank cr ct tierId wr wt
      lr lp jobNo1 jobNo2 workDate nt fees c] assms ins nums
  show ?thesis
    by (auto dest!: toNumOrNull_Some)
qed

text \<open>
  C1. The claim includes that an entry created with customer rate 50 and 3 hours stores
  the customer total 150. The create route stores the total the request carries and
  does not compute it: rate 50, 3 hours and a supplied total of 100 store 100.
\<close>

theorem C1_total_not_computed_counterexample:
  "Number (b_customer_rate (create_body\<lparr> b_customer_total := JNum (Fin 100) \<rparr>)) = Fin 50
   \<and> Number (b_amount (create_body\<lparr> b_customer_total := JNum (Fin 100) \<rparr>)) = Fin 3
   \<and> fst (postWorkEntry demo_db
             (request_of staff_user [] (create_body\<lparr> b_customer_total := JNum (Fin 100) \<rparr>)))
       = Inr \<lparr> cr_id = 3, cr_fees_collected = 100 \<rparr>
   \<and> map (\<lambda>e. (we_id e, we_customer_rate e, we_amount e, we_customer_total e))
       (work_entries (snd (postWorkEntry demo_db
          (request_of staff_user [] (create_body\<lparr> b_customer_total := JNum (Fin 100) \<rparr>)))))
       = [(1, 50, 3, 150), (2, 50, 3, 150), (3, 50, 3, 100)]"
  by code_simp

text \<open>
  C1, as the code has it. An update of a job (its base price and its \<open>job_wages\<close> rows)
  leaves the table \<open>work_entries\<close> as it was, every column of every row. In particular
  an entry that a create stored with the amount, rates and totals of its request (rate
  50, 3 hours and a supplied total of 150 store 150) is still there with the same values
  after the job's update.
\<close>

theorem C1_snapshot_frame:
  "work_entries (snd (putJob d jreq)) = work_entries d
   \<and> (fst (postWorkEntry d req) = Inr c \<longrightarrow>
        (\<exists>e\<in>set (work_entries (snd (putJob (snd (postWorkEntry d req)) jreq))).
           we_id e = cr_id c
           \<and> Fin (we_amount e) = Number (b_amount (req_body req))
           \<and> Fin (we_customer_rate e) = Number (b_customer_rate (req_body req))
           \<and> Fin (we_customer_total e) = Number (b_customer_total (req_body req))
           \<and> Fin (we_wage_rate e) = Number (b_wage_rate (req_body req))
           \<and> Fin (we_wage_total e) = Number (b_wage_total (req_body req))))"
  using postWorkEntry_row [of d req c] by (simp add: putJob_work_entries)

theorem C1_snapshot_frame_witness:
  "fst (postWorkEntry demo_db (request_of staff_user [] create_body))
     = Inr \<lparr> cr_id = 3, cr_fees_collected = 150 \<rparr>
   \<and> fst (putJob (snd (postWorkEntry demo_db (request_of staff_user [] create_body))) price_change)
       = Inr ()
   \<and> map j_normal_price
       (jobs (snd (putJob (snd (postWorkEntry demo_db (request_of staff_user [] create_body)))
                     price_change))) = [Fin 99]
   \<and> map jw_wage_rate
       (job_wages (snd (putJob (snd (postWorkEntry demo_db (request_of staff_user [] create_body)))
                          price_change))) = [Fin 40]
   \<and> (\<exists>e\<in>set (work_entries
                (snd (putJob (snd (postWorkEntry demo_db (request_of staff_user [] create_body)))
                        price_change))).
         we_id e = 3 \<and> we_amount e = 3 \<and> we_customer_rate e = 50 \<and> we_customer_total e = 150
         \<and> we_wage_rate e = 20 \<and> we_wage_total e = 60)
   \<and> work_entries
       (snd (putJob (snd (postWorkEntry demo_db (request_of staff_user [] create_body)))
               price_change))
     = work_entries (snd (postWorkEntry demo_db (request_of staff_user [] create_body)))"
proof -
  let ?req = "request_of staff_user [] create_body"
  let ?d1 = "snd (postWorkEntry demo_db ?req)"
  have a: "fst (postWorkEntry demo_db ?req) = Inr \<lparr> cr_id = 3, cr_fees_collected = 150 \<rparr>"
    by code_simp
  have b: "fst (putJob ?d1 price_change) = Inr ()"
    by code_simp
  have c: "map j_normal_price (jobs (snd (putJob ?d1 price_change))) = [Fin 99]"
    by code_simp
  have e: "map jw_wage_rate (job_wages (snd (putJob ?d1 price_change))) = [Fin 40]"
    by code_simp
  have n: "Number (b_amount (req_body ?req)) = Fin 3"
    "Number (b_customer_rate (req_body ?req)) = Fin 50"
    "Number (b_customer_total (req_body ?req)) = Fin 150"
    "Number (b_wage_rate (req_body ?req)) = Fin 20"
    "Number (b_wage_total (req_body ?req)) = Fin 60"
    by code_simp+
  have fr: "work_entries (snd (putJob ?d1 price_change)) = work_entries ?d1"
    using C1_snapshot_frame [where d = ?d1 and jreq = price_change] by simp
  from C1_snapshot_frame [where d = demo_db and jreq = price_change and req = ?req
                             and c = "\<lparr> cr_id = 3, cr_fees_collected = 150 \<rparr>"]
    fr a b c e n
  show ?thesis by simp
qed

subsection \<open>Creating without the create capability\<close>

text \<open>
  C8. The claim is that a create by a principal without \<open>WORK_ENTRY_CREATE\<close> fails and
  inserts nothing. The create route has no permission middleware. In the example data
  user 4 has no role, so \<open>requirePermission("WORK_ENTRY_CREATE")\<close> would answer 403 for
  the request, and the create stores the entry; a request with no session at all stores
  it as well.
\<close>

theorem C8_create_without_permission:
  "requirePermission ''WORK_ENTRY_CREATE'' demo_db (request_of norole_user [] create_body)
     = Some (Forbidden ''WORK_ENTRY_CREATE'')
   \<and> \<not> hasPermissionReq demo_db (request_of norole_user [] create_body) ''WORK_ENTRY_CREATE''
   \<and> fst (api_postWorkEntry demo_db (request_of norole_user [] create_body))
       = Inr \<lparr> cr_id = 3, cr_fees_collected = 150 \<rparr>
   \<and> map we_id (work_entries (snd (api_postWorkEntry demo_db (request_of norole_user [] create_body))))
       = [1, 2, 3]
   \<and> requirePermission ''WORK_ENTRY_CREATE'' demo_db (anonymous_request\<lparr>req_body := create_body\<rparr>)
       = Some Unauthenticated
   \<and> fst (api_postWorkEntry demo_db (anonymous_request\<lparr>req_body := create_body\<rparr>))
       = Inr \<lparr> cr_id = 3, cr_fees_collected = 150 \<rparr>"
  by code_simp

theorem C8_create_without_permission_witness:
  "length (work_entries (snd (api_postWorkEntry demo_db (request_of norole_user [] create_body))))
     = Suc (length (work_entries demo_db))"
proof -
  have "length (work_entries demo_db) = 2" by code_simp
  moreover from C8_create_without_permission
  have "length (map we_id (work_entries
                  (snd (api_postWorkEntry demo_db (request_of norole_user [] create_body)))))
          = length [1, 2, 3 :: int]"
    by simp
  ultimately show ?thesis by simp
qed

subsection \<open>Listing without a company\<close>

text \<open>
  C9. A list request with no company id in the query or the body, no active company in
  the session and no signed-in user resolves the company to 1 and the window to
  unlimited, and returns every entry of company 1, each once, newest first, with no date
  filter.
\<close>

theorem C9_company_fallback:
  assumes "\<not> str_truthy (query_companyId req)"
    and "\<not> truthy (b_company_id (req_body req))"
    and "\<not> int_truthy (activeCompanyId (req_session req))"
    and "sess_user (req_session req) = None"
  shows "getCompanyId (withContext req) = Fin 1
       \<and> getDaysLimitForUser d (withContext req) = None
       \<and> api_getWorkEntries today d req =
           map (list_row_of d)
             (rev (sort_key (\<lambda>e. (we_work_date e, we_id e))
                     (filter (\<lambda>e. we_company_id e = 1) (work_entries d))))
       \<and> set (map lr_entry (api_getWorkEntries today d req))
           = {e \<in> set (work_entries d). we_company_id e = 1}
       \<and> length (api_getWorkEntries today d req)
           = length (filter (\<lambda>e. we_company_id e = 1) (work_entries d))"
proof -
  have ctx: "withContext req = req"
    using assms(4) by (simp add: withContext_def companyContext_def)
  have c: "getCompanyId req = Fin 1"
    using assms by (simp add: getCompanyId_def Let_def int_truthy_def)
  have l: "getDaysLimitForUser d req = None"
    using assms(4) by (simp add: getDaysLimitForUser_def)
  have rows: "api_getWorkEntries today d req =
           map (list_row_of d)
             (rev (sort_key (\<lambda>e. (we_work_date e, we_id e))
                     (filter (\<lambda>e. we_company_id e = 1) (work_entries d))))"
    by (simp add: api_getWorkEntries_def getWorkEntries_def ctx c l dateClause_def Let_def)
  have row: "lr_entry \<circ> list_row_of d = id"
    by (simp add: fun_eq_iff list_row_of_def)
  show ?thesis
    unfolding rows using c l by (auto simp add: ctx row list_row_of_def)
qed

theorem C9_company_fallback_witness:
  "\<not> str_truthy (query_companyId anonymous_request)
   \<and> \<not> truthy (b_company_id (req_body anonymous_request))
   \<and> \<not> int_truthy (activeCompanyId (req_session anonymous_request))
   \<and> sess_user (req_session anonymous_request) = None
   \<and> getCompanyId (withContext anonymous_request) = Fin 1
   \<and> getDaysLimitForUser demo_db (withContext anonymous_request) = None
   \<and> map (\<lambda>r. (we_id (lr_entry r), we_company_id (lr_entry r), we_work_date (lr_entry r)))
       (api_getWorkEntries 120 demo_db anonymous_request) = [(1, 1, 100), (2, 1, 80)]
   \<and> length (api_getWorkEntries 120 demo_db anonymous_request) = length (work_entries demo_db)"
proof -
  have a: "\<not> str_truthy (query_companyId anonymous_request)" by code_simp
  have b: "\<not> truthy (b_company_id (req_body anonymous_request))" by code_simp
  have c: "\<not> int_truthy (activeCompanyId (req_session anonymous_request))" by code_simp
  have e: "sess_user (req_session anonymous_request) = None" by code_simp
  have f: "map (\<lambda>r. (we_id (lr_entry r), we_company_id (lr_entry r), we_work_date (lr_entry r)))
       (api_getWorkEntries 120 demo_db anonymous_request) = [(1, 1, 100), (2, 1, 80)]"
    by code_simp
  have g: "length (filter (\<lambda>e. we_company_id e = 1) (work_entries demo_db))
             = length (work_entries demo_db)"
    by code_simp
  from C9_company_fallback [OF a b c e, of demo_db 120] a b c e f g
  show ?thesis by simp
qed

end
